theory Spec2Isabelle
  imports Complex_Main
begin

section \<open>Promises and rejections\<close>

text \<open>
  The helper of \<^verbatim>\<open>src/addon/mod/forum/providers/helper.ts\<close> works on promises. A settled
  promise is either rejected with a reason or resolved with a value, so a promise is
  modelled by its outcome, \<open>rejection + 'a\<close>, with \<open>Inl\<close> the rejection.
  \<open>Null\<close> is the reason of \<^verbatim>\<open>Promise.reject(null)\<close>; the other two reasons are those a
  collaborator can give (the file store distinguishes a folder that does not exist from
  every other failure).
\<close>

datatype rejection = Null | NotFoundError | OtherError string

type_synonym 'a promise = "rejection + 'a"

text \<open>\<^verbatim>\<open>p.then(f)\<close> where \<open>f\<close> returns a promise: a rejection of \<open>p\<close> skips \<open>f\<close>.\<close>

definition then_promise :: "'a promise \<Rightarrow> ('a \<Rightarrow> 'b promise) \<Rightarrow> 'b promise" where
  "then_promise p f = (case p of Inl e \<Rightarrow> Inl e | Inr v \<Rightarrow> f v)"

text \<open>\<^verbatim>\<open>p.then(f)\<close> where \<open>f\<close> returns a plain value.\<close>

definition then_value :: "'a promise \<Rightarrow> ('a \<Rightarrow> 'b) \<Rightarrow> 'b promise" where
  "then_value p f = (case p of Inl e \<Rightarrow> Inl e | Inr v \<Rightarrow> Inr (f v))"

text \<open>\<^verbatim>\<open>p.catch(() => { })\<close>: every rejection becomes a resolution with the given
  default (\<^verbatim>\<open>undefined\<close> in the source).\<close>

definition catch_ignore :: "'a promise \<Rightarrow> 'a \<Rightarrow> 'a promise" where
  "catch_ignore p dflt = (case p of Inl e \<Rightarrow> Inr dflt | Inr v \<Rightarrow> Inr v)"

text \<open>
  \<^verbatim>\<open>Promise.all\<close>: rejected as soon as one member is rejected, resolved with all the
  values otherwise. With several rejected members JavaScript reports the one that settles
  first; the list order is taken here, and \<open>convertOfflineReplyToOnline\<close> below never has
  more than one member that can be rejected.
\<close>

fun Promise_all :: "'a promise list \<Rightarrow> 'a list promise" where
  "Promise_all [] = Inr []"
| "Promise_all (Inl e # ps) = Inl e"
| "Promise_all (Inr v # ps) = (case Promise_all ps of Inl e \<Rightarrow> Inl e | Inr vs \<Rightarrow> Inr (v # vs))"

section \<open>Collaborators\<close>

text \<open>
  The providers injected into the helper's constructor are not part of the file; each is
  a record of the methods the helper calls, and every theorem holds for all of them.
  A method that returns a promise gives its outcome. \<open>removeDir\<close> also changes the file
  store, which is the state \<open>'fs\<close>.
\<close>

record TranslateService =
  instant :: "string \<Rightarrow> string option \<Rightarrow> string"

record 'fs CoreFileProvider =
  removeDir :: "string \<Rightarrow> 'fs \<Rightarrow> unit promise \<times> 'fs"

record CoreSitesProvider =
  getCurrentSiteId :: "string"

record ('f, 'r) CoreFileUploaderProvider =
  getStoredFiles :: "string \<Rightarrow> 'f list promise"
  storeFilesToUpload :: "string \<Rightarrow> 'f list \<Rightarrow> 'r promise"
  uploadOrReuploadFiles :: "'f list \<Rightarrow> string \<Rightarrow> int \<Rightarrow> string option \<Rightarrow> 'r promise"
  areFileListDifferent :: "'f list \<Rightarrow> 'f list \<Rightarrow> bool"

record CoreTimeUtilsProvider =
  userDate :: "int \<Rightarrow> string"

record user_profile =
  fullname :: string
  profileimageurl :: string

record CoreUserProvider =
  getProfile :: "int \<Rightarrow> int \<Rightarrow> bool \<Rightarrow> user_profile promise"

text \<open>A discussion as the listing returns it: its id and the rest of its data.\<close>

record 'd discussion =
  id_discussion :: int
  data :: 'd

record 'd discussions_response =
  discussions :: "'d discussion list option"
  canLoadMore :: bool

text \<open>\<open>COMPONENT\<close> is the static \<^verbatim>\<open>AddonModForumProvider.COMPONENT\<close>.\<close>

record 'd AddonModForumProvider =
  COMPONENT :: string
  getDiscussions :: "int \<Rightarrow> string option \<Rightarrow> nat \<Rightarrow> bool \<Rightarrow> string \<Rightarrow> 'd discussions_response promise"

record AddonModForumOfflineProvider =
  getNewDiscussionFolder :: "int \<Rightarrow> int \<Rightarrow> string option \<Rightarrow> string promise"
  getReplyFolder :: "int \<Rightarrow> int \<Rightarrow> string option \<Rightarrow> int option \<Rightarrow> string promise"

record ('fs, 'f, 'r, 'd) AddonModForumHelperProvider =
  translate :: TranslateService
  fileProvider :: "'fs CoreFileProvider"
  sitesProvider :: CoreSitesProvider
  uploaderProvider :: "('f, 'r) CoreFileUploaderProvider"
  timeUtils :: CoreTimeUtilsProvider
  userProvider :: CoreUserProvider
  forumProvider :: "'d AddonModForumProvider"
  forumOffline :: AddonModForumOfflineProvider

section \<open>Availability of a forum\<close>

record forum =
  cutoffdate :: int
  duedate :: int

text \<open>
  \<^verbatim>\<open>Date.now()\<close> reads the clock, and \<open>getAvailabilityMessage\<close> reads it twice (once in
  each of the two checks). A clock is the sequence of the readings to come, in
  milliseconds; reading it returns the first and leaves the rest.
\<close>

type_synonym clock = "nat \<Rightarrow> int"

definition Date_now :: "clock \<Rightarrow> int \<times> clock" where
  "Date_now clk = (clk 0, \<lambda>n. clk (Suc n))"

definition isCutoffDateReached :: "forum \<Rightarrow> clock \<Rightarrow> bool \<times> clock" where
  "isCutoffDateReached forum clk =
     (let (ms, clk') = Date_now clk;
          now = real_of_int ms / 1000
      in (cutoffdate forum > 0 \<and> real_of_int (cutoffdate forum) < now, clk'))"

definition isDueDateReached :: "forum \<Rightarrow> clock \<Rightarrow> bool \<times> clock" where
  "isDueDateReached forum clk =
     (let (ms, clk') = Date_now clk;
          now = real_of_int ms / 1000
      in (duedate forum > 0 \<and> real_of_int (duedate forum) < now, clk'))"

definition getAvailabilityMessage ::
  "('fs, 'f, 'r, 'd) AddonModForumHelperProvider \<Rightarrow> forum \<Rightarrow> clock \<Rightarrow> string option \<times> clock" where
  "getAvailabilityMessage this forum clk =
     (let (cutoff, clk1) = isCutoffDateReached forum clk in
      if cutoff then
        (Some (instant (translate this) ''addon.mod_forum.cutoffdatereached'' None), clk1)
      else
        (let (due, clk2) = isDueDateReached forum clk1 in
         if due then
           (let dueDate = userDate (timeUtils this) (duedate forum * 1000)
            in (Some (instant (translate this) ''addon.mod_forum.thisforumisdue'' (Some dueDate)), clk2))
         else if duedate forum > 0 then
           (let dueDate = userDate (timeUtils this) (duedate forum * 1000)
            in (Some (instant (translate this) ''addon.mod_forum.thisforumhasduedate'' (Some dueDate)), clk2))
         else (None, clk2)))"

section \<open>Stored attachment files\<close>

text \<open>
  Both delete operations derive the folder and remove it. The \<^verbatim>\<open>catch\<close> on \<open>removeDir\<close>
  has no condition (the source's comment: ``Ignore any errors, CoreFileProvider.removeDir
  fails if folder doesn't exists''); a rejected folder derivation skips the removal and
  leaves the store as it is.
\<close>

definition deleteNewDiscussionStoredFiles ::
  "('fs, 'f, 'r, 'd) AddonModForumHelperProvider \<Rightarrow> int \<Rightarrow> int \<Rightarrow> string option \<Rightarrow> 'fs
     \<Rightarrow> unit promise \<times> 'fs" where
  "deleteNewDiscussionStoredFiles this forumId timecreated siteId fs =
     (case getNewDiscussionFolder (forumOffline this) forumId timecreated siteId of
        Inl e \<Rightarrow> (Inl e, fs)
      | Inr folderPath \<Rightarrow>
          (let (removed, fs') = removeDir (fileProvider this) folderPath fs
           in (catch_ignore removed (), fs')))"

definition deleteReplyStoredFiles ::
  "('fs, 'f, 'r, 'd) AddonModForumHelperProvider \<Rightarrow> int \<Rightarrow> int \<Rightarrow> string option \<Rightarrow> int option \<Rightarrow> 'fs
     \<Rightarrow> unit promise \<times> 'fs" where
  "deleteReplyStoredFiles this forumId postId siteId userId fs =
     (case getReplyFolder (forumOffline this) forumId postId siteId userId of
        Inl e \<Rightarrow> (Inl e, fs)
      | Inr folderPath \<Rightarrow>
          (let (removed, fs') = removeDir (fileProvider this) folderPath fs
           in (catch_ignore removed (), fs')))"

definition getNewDiscussionStoredFiles ::
  "('fs, 'f, 'r, 'd) AddonModForumHelperProvider \<Rightarrow> int \<Rightarrow> int \<Rightarrow> string option \<Rightarrow> 'f list promise" where
  "getNewDiscussionStoredFiles this forumId timecreated siteId =
     then_promise (getNewDiscussionFolder (forumOffline this) forumId timecreated siteId)
       (\<lambda>folderPath. getStoredFiles (uploaderProvider this) folderPath)"

definition getReplyStoredFiles ::
  "('fs, 'f, 'r, 'd) AddonModForumHelperProvider \<Rightarrow> int \<Rightarrow> int \<Rightarrow> string option \<Rightarrow> int option
     \<Rightarrow> 'f list promise" where
  "getReplyStoredFiles this forumId postId siteId userId =
     then_promise (getReplyFolder (forumOffline this) forumId postId siteId userId)
       (\<lambda>folderPath. getStoredFiles (uploaderProvider this) folderPath)"

definition storeNewDiscussionFiles ::
  "('fs, 'f, 'r, 'd) AddonModForumHelperProvider \<Rightarrow> int \<Rightarrow> int \<Rightarrow> 'f list \<Rightarrow> string option \<Rightarrow> 'r promise" where
  "storeNewDiscussionFiles this forumId timecreated files siteId =
     then_promise (getNewDiscussionFolder (forumOffline this) forumId timecreated siteId)
       (\<lambda>folderPath. storeFilesToUpload (uploaderProvider this) folderPath files)"

definition storeReplyFiles ::
  "('fs, 'f, 'r, 'd) AddonModForumHelperProvider \<Rightarrow> int \<Rightarrow> int \<Rightarrow> 'f list \<Rightarrow> string option \<Rightarrow> int option
     \<Rightarrow> 'r promise" where
  "storeReplyFiles this forumId postId files siteId userId =
     then_promise (getReplyFolder (forumOffline this) forumId postId siteId userId)
       (\<lambda>folderPath. storeFilesToUpload (uploaderProvider this) folderPath files)"

definition uploadOrStoreNewDiscussionFiles ::
  "('fs, 'f, 'r, 'd) AddonModForumHelperProvider \<Rightarrow> int \<Rightarrow> int \<Rightarrow> 'f list \<Rightarrow> bool \<Rightarrow> string option
     \<Rightarrow> 'r promise" where
  "uploadOrStoreNewDiscussionFiles this forumId timecreated files offline siteId =
     (if offline then storeNewDiscussionFiles this forumId timecreated files siteId
      else uploadOrReuploadFiles (uploaderProvider this) files (COMPONENT (forumProvider this)) forumId siteId)"

definition uploadOrStoreReplyFiles ::
  "('fs, 'f, 'r, 'd) AddonModForumHelperProvider \<Rightarrow> int \<Rightarrow> int \<Rightarrow> 'f list \<Rightarrow> bool \<Rightarrow> string option
     \<Rightarrow> int option \<Rightarrow> 'r promise" where
  "uploadOrStoreReplyFiles this forumId postId files offline siteId userId =
     (if offline then storeReplyFiles this forumId postId files siteId userId
      else uploadOrReuploadFiles (uploaderProvider this) files (COMPONENT (forumProvider this)) forumId siteId)"

section \<open>Change detection\<close>

text \<open>
  The fields of a post under edit that \<open>hasPostDataChanged\<close> reads. \<open>None\<close> is
  \<^verbatim>\<open>undefined\<close> or \<^verbatim>\<open>null\<close>, which \<^verbatim>\<open>==\<close> and \<^verbatim>\<open>!=\<close> do not tell apart and which
  they hold different from every string and from both booleans; so the source's loose
  comparisons are equality of the optional values.
\<close>

record 'f post_data =
  subject :: "string option"
  message :: "string option"
  isprivatereply :: "bool option"
  files :: "'f list"

definition hasPostDataChanged ::
  "('fs, 'f, 'r, 'd) AddonModForumHelperProvider \<Rightarrow> 'f post_data \<Rightarrow> 'f post_data option \<Rightarrow> bool" where
  "hasPostDataChanged this post original =
     (case original of
        None \<Rightarrow> False
      | Some orig \<Rightarrow>
          if subject orig = None then False
          else if subject post \<noteq> subject orig \<or> message post \<noteq> message orig then True
          else if isprivatereply post \<noteq> isprivatereply orig then True
          else areFileListDifferent (uploaderProvider this) (files post) (files orig))"

section \<open>Looking a discussion up\<close>

text \<open>
  \<open>findDiscussion\<close> is the inner function of \<open>getDiscussionById\<close>. It calls itself on the
  next page for as long as the pages are non-empty, hold no match and can load more, which
  a listing may do forever: the result \<open>None\<close> is the promise that never settles.
  \<^verbatim>\<open>Array.find\<close> is \<open>List.find\<close>: the first element that satisfies the test.
\<close>

partial_function (option) findDiscussion ::
  "('fs, 'f, 'r, 'd) AddonModForumHelperProvider \<Rightarrow> int \<Rightarrow> int \<Rightarrow> string \<Rightarrow> nat
     \<Rightarrow> 'd discussion promise option" where
  "findDiscussion this forumId discussionId siteId page =
     (case getDiscussions (forumProvider this) forumId None page False siteId of
        Inl e \<Rightarrow> Some (Inl e)
      | Inr response \<Rightarrow>
          (case discussions response of
             None \<Rightarrow> Some (Inl Null)
           | Some ds \<Rightarrow>
               if length ds > 0 then
                 (case List.find (\<lambda>discussion. id_discussion discussion = discussionId) ds of
                    Some discussion \<Rightarrow> Some (Inr discussion)
                  | None \<Rightarrow>
                      if canLoadMore response
                      then findDiscussion this forumId discussionId siteId (page + 1)
                      else Some (Inl Null))
               else Some (Inl Null)))"

text \<open>\<^verbatim>\<open>siteId || getCurrentSiteId()\<close>: an absent and an empty site id are both falsy.\<close>

definition getDiscussionById ::
  "('fs, 'f, 'r, 'd) AddonModForumHelperProvider \<Rightarrow> int \<Rightarrow> int \<Rightarrow> string option
     \<Rightarrow> 'd discussion promise option" where
  "getDiscussionById this forumId discussionId siteId =
     (let siteId' = (case siteId of
                       None \<Rightarrow> getCurrentSiteId (sitesProvider this)
                     | Some s \<Rightarrow> if s = [] then getCurrentSiteId (sitesProvider this) else s)
      in findDiscussion this forumId discussionId siteId' 0)"

section \<open>Converting an offline reply\<close>

text \<open>
  An offline reply, with the fields the conversion reads. \<open>options\<close> and, inside it,
  \<open>attachmentsid\<close> and its \<open>online\<close> list may be absent (\<open>None\<close>). \<open>offline\<close> is the number
  of files stored locally; it is tested for truthiness, so absent and \<open>0\<close> both mean that
  nothing is stored.
\<close>

record 'f attachmentsid =
  online :: "'f list option"
  offline :: "int option"

record 'f reply_options =
  "private" :: "bool option"
  attachmentsid :: "'f attachmentsid option"

record 'f offlineReply =
  timecreated :: int
  discussionid :: int
  message :: string
  postid :: int
  subject :: string
  userid :: int
  forumid :: int
  courseid :: int
  options :: "'f reply_options option"

text \<open>
  The reply in online format. \<open>None\<close> in \<open>id_reply\<close> and \<open>modified\<close> is the source's
  \<^verbatim>\<open>false\<close>; \<open>None\<close> in \<open>isprivatereply\<close>, \<open>attachment\<close>, \<open>userfullname\<close> and \<open>userpictureurl\<close>
  is a field that is \<^verbatim>\<open>undefined\<close>.
\<close>

record 'f reply =
  attachments :: "'f list"
  canreply :: bool
  children :: "int list"
  created :: int
  discussion :: int
  id_reply :: "int option"
  mailed :: int
  mailnow :: int
  message :: string
  messageformat :: int
  messagetrust :: int
  modified :: "int option"
  parent :: int
  postread :: bool
  subject :: string
  totalscore :: int
  userid :: int
  isprivatereply :: "bool option"
  attachment :: "int option"
  userfullname :: "string option"
  userpictureurl :: "string option"

definition truthy :: "int option \<Rightarrow> bool" where
  "truthy v = (case v of None \<Rightarrow> False | Some n \<Rightarrow> n \<noteq> 0)"

text \<open>
  Each member of \<open>promises\<close> settles with a rejection or with the update its \<^verbatim>\<open>then\<close>
  callback makes to \<open>reply\<close>. The two subtasks are started without waiting for one another,
  so which callback runs first is the scheduler's choice: \<open>profileFirst\<close>. The callback of
  \<^verbatim>\<open>Promise.all\<close> runs after both.
\<close>

definition convertOfflineReplyToOnline ::
  "('fs, 'f, 'r, 'd) AddonModForumHelperProvider \<Rightarrow> bool \<Rightarrow> 'f offlineReply \<Rightarrow> string option
     \<Rightarrow> 'f reply promise" where
  "convertOfflineReplyToOnline this profileFirst offlineReply siteId =
     (let reply0 = \<lparr>
            attachments = [],
            canreply = False,
            children = [],
            created = timecreated offlineReply,
            discussion = discussionid offlineReply,
            id_reply = None,
            mailed = 0,
            mailnow = 0,
            reply.message = offlineReply.message offlineReply,
            messageformat = 1,
            messagetrust = 0,
            modified = None,
            parent = postid offlineReply,
            postread = False,
            reply.subject = offlineReply.subject offlineReply,
            totalscore = 0,
            reply.userid = offlineReply.userid offlineReply,
            reply.isprivatereply =
              (case options offlineReply of None \<Rightarrow> None | Some opts \<Rightarrow> private opts),
            attachment = None,
            userfullname = None,
            userpictureurl = None \<rparr>;
          (reply1, promises1) =
            (case options offlineReply of
               None \<Rightarrow> (reply0, [])
             | Some opts \<Rightarrow>
                 (case attachmentsid opts of
                    None \<Rightarrow> (reply0, [])
                  | Some att \<Rightarrow>
                      (let reply' = reply0\<lparr>attachments :=
                                       (case online att of None \<Rightarrow> [] | Some fs \<Rightarrow> fs)\<rparr>
                       in if truthy (offline att) then
                            (reply',
                             [then_value
                                (getReplyStoredFiles this (forumid offlineReply) (parent reply')
                                   siteId (Some (reply.userid reply')))
                                (\<lambda>stored r. r\<lparr>attachments := attachments r @ stored\<rparr>)])
                          else (reply', []))));
          promises2 = promises1 @
            [catch_ignore
               (then_value
                  (getProfile (userProvider this) (offlineReply.userid offlineReply)
                     (courseid offlineReply) True)
                  (\<lambda>user r. r\<lparr>userfullname := Some (fullname user),
                               userpictureurl := Some (profileimageurl user)\<rparr>))
               (\<lambda>r. r)]
      in case Promise_all promises2 of
           Inl e \<Rightarrow> Inl e
         | Inr callbacks \<Rightarrow>
             (let reply2 = fold (\<lambda>callback r. callback r)
                             (if profileFirst then rev callbacks else callbacks) reply1
              in Inr (reply2\<lparr>attachment := Some (if length (attachments reply2) > 0 then 1 else 0)\<rparr>)))"

section \<open>Notions of the specification\<close>

text \<open>
  \<open>hasLocal\<close>: the draft marks files stored locally, which is when the conversion lists
  the stored files.
\<close>

definition hasLocal :: "'f offlineReply \<Rightarrow> bool" where
  "hasLocal r =
     (case options r of
        None \<Rightarrow> False
      | Some opts \<Rightarrow> (case attachmentsid opts of None \<Rightarrow> False | Some att \<Rightarrow> truthy (offline att)))"

text \<open>
  A page lets the scan go on when it was fetched, is not empty, holds no discussion with
  the id looked for and says that more can be loaded.
\<close>

definition page_advances ::
  "('fs, 'f, 'r, 'd) AddonModForumHelperProvider \<Rightarrow> int \<Rightarrow> int \<Rightarrow> string \<Rightarrow> nat \<Rightarrow> bool" where
  "page_advances this forumId discussionId siteId page =
     (case getDiscussions (forumProvider this) forumId None page False siteId of
        Inl e \<Rightarrow> False
      | Inr response \<Rightarrow>
          (case discussions response of
             None \<Rightarrow> False
           | Some ds \<Rightarrow>
               ds \<noteq> [] \<and> List.find (\<lambda>d. id_discussion d = discussionId) ds = None
               \<and> canLoadMore response))"

section \<open>A helper over in-memory collaborators\<close>

text \<open>
  Concrete collaborators on which the theorems are run. The file store is the list of the
  folders that exist; \<open>removeDir\<close> rejects with \<open>NotFoundError\<close> for a folder that is not
  there. One file is stored in every folder, the listing has three pages, and the
  profile of every user is known.
\<close>

definition memory_removeDir :: "string \<Rightarrow> string list \<Rightarrow> unit promise \<times> string list" where
  "memory_removeDir path fs =
     (if path \<in> set fs then (Inr (), removeAll path fs) else (Inl NotFoundError, fs))"

definition memory_getDiscussions ::
  "int \<Rightarrow> string option \<Rightarrow> nat \<Rightarrow> bool \<Rightarrow> string \<Rightarrow> string discussions_response promise" where
  "memory_getDiscussions forumId sortOrder page forceCache siteId =
     (if page = 0 then
        Inr \<lparr>discussions = Some [\<lparr>id_discussion = 11, data = ''a''\<rparr>, \<lparr>id_discussion = 12, data = ''b''\<rparr>],
             canLoadMore = True\<rparr>
      else if page = 1 then
        Inr \<lparr>discussions = Some [\<lparr>id_discussion = 21, data = ''c''\<rparr>, \<lparr>id_discussion = 22, data = ''d''\<rparr>],
             canLoadMore = True\<rparr>
      else if page = 2 then
        Inr \<lparr>discussions = Some [\<lparr>id_discussion = 31, data = ''e''\<rparr>, \<lparr>id_discussion = 32, data = ''f''\<rparr>,
                                 \<lparr>id_discussion = 32, data = ''g''\<rparr>],
             canLoadMore = False\<rparr>
      else Inr \<lparr>discussions = Some [], canLoadMore = False\<rparr>)"

definition memory_translate :: TranslateService where
  "memory_translate =
     \<lparr>instant = (\<lambda>key params. case params of None \<Rightarrow> key | Some a \<Rightarrow> key @ '' '' @ a)\<rparr>"

definition memory_uploader :: "(string, nat) CoreFileUploaderProvider" where
  "memory_uploader = \<lparr>
     getStoredFiles = (\<lambda>folderPath. Inr [''local0'']),
     storeFilesToUpload = (\<lambda>folderPath fls. Inr (length fls)),
     uploadOrReuploadFiles = (\<lambda>fls component itemId siteId. Inr 99),
     areFileListDifferent = (\<lambda>a b. set a \<noteq> set b)\<rparr>"

definition memory_timeUtils :: CoreTimeUtilsProvider where
  "memory_timeUtils = \<lparr>userDate = (\<lambda>ms. if ms = 200000 then ''200'' else ''another day'')\<rparr>"

definition memory_users :: CoreUserProvider where
  "memory_users = \<lparr>getProfile = (\<lambda>userId courseId forceLocal.
                      Inr \<lparr>fullname = ''Ada'', profileimageurl = ''ada.png''\<rparr>)\<rparr>"

definition memory_forumOffline :: AddonModForumOfflineProvider where
  "memory_forumOffline = \<lparr>
     getNewDiscussionFolder = (\<lambda>forumId timecreated siteId. Inr ''newdisc''),
     getReplyFolder = (\<lambda>forumId postId siteId userId. Inr ''reply'')\<rparr>"

definition memory_helper ::
  "(string list, string, nat, string) AddonModForumHelperProvider" where
  "memory_helper = \<lparr>
     translate = memory_translate,
     fileProvider = \<lparr>removeDir = memory_removeDir\<rparr>,
     sitesProvider = \<lparr>getCurrentSiteId = ''site''\<rparr>,
     uploaderProvider = memory_uploader,
     timeUtils = memory_timeUtils,
     userProvider = memory_users,
     forumProvider = \<lparr>COMPONENT = ''mmaModForum'', getDiscussions = memory_getDiscussions\<rparr>,
     forumOffline = memory_forumOffline \<rparr>"

text \<open>The same helper with a file store where every removal fails on an input/output error.\<close>

definition broken_store_helper ::
  "(string list, string, nat, string) AddonModForumHelperProvider" where
  "broken_store_helper =
     memory_helper\<lparr>fileProvider := \<lparr>removeDir = (\<lambda>path fs. (Inl (OtherError ''EIO''), fs))\<rparr>\<rparr>"

text \<open>The same helper with no profile to be had, and with stored files that cannot be listed.\<close>

definition no_profile_helper ::
  "(string list, string, nat, string) AddonModForumHelperProvider" where
  "no_profile_helper =
     memory_helper\<lparr>userProvider := \<lparr>getProfile = (\<lambda>userId courseId forceLocal.
                                         Inl (OtherError ''no connection''))\<rparr>\<rparr>"

definition no_listing_helper ::
  "(string list, string, nat, string) AddonModForumHelperProvider" where
  "no_listing_helper =
     memory_helper\<lparr>uploaderProvider :=
       memory_uploader\<lparr>getStoredFiles := (\<lambda>folderPath. Inl (OtherError ''unreadable''))\<rparr>\<rparr>"

text \<open>The same helper when the folders cannot be derived (no site to derive them for).\<close>

definition no_folder_helper ::
  "(string list, string, nat, string) AddonModForumHelperProvider" where
  "no_folder_helper =
     memory_helper\<lparr>forumOffline := \<lparr>
       getNewDiscussionFolder = (\<lambda>forumId timecreated siteId. Inl (OtherError ''no site'')),
       getReplyFolder = (\<lambda>forumId postId siteId userId. Inl (OtherError ''no site''))\<rparr>\<rparr>"

text \<open>
  The same helper over a listing whose first page is empty although more can be loaded; the
  discussion 21 is on the page after it.
\<close>

definition gap_getDiscussions ::
  "int \<Rightarrow> string option \<Rightarrow> nat \<Rightarrow> bool \<Rightarrow> string \<Rightarrow> string discussions_response promise" where
  "gap_getDiscussions forumId sortOrder page forceCache siteId =
     (if page = 0 then Inr \<lparr>discussions = Some [], canLoadMore = True\<rparr>
      else if page = 1 then
        Inr \<lparr>discussions = Some [\<lparr>id_discussion = 21, data = ''c''\<rparr>], canLoadMore = False\<rparr>
      else Inr \<lparr>discussions = Some [], canLoadMore = False\<rparr>)"

definition gap_helper ::
  "(string list, string, nat, string) AddonModForumHelperProvider" where
  "gap_helper =
     memory_helper\<lparr>forumProvider := \<lparr>COMPONENT = ''mmaModForum'', getDiscussions = gap_getDiscussions\<rparr>\<rparr>"

text \<open>Two drafts: one without options, one with two remote files and a file stored locally.\<close>

definition plain_draft :: "string offlineReply" where
  "plain_draft = \<lparr>timecreated = 1000, discussionid = 5, message = ''hello'', postid = 40,
     subject = ''Re: topic'', userid = 7, forumid = 3, courseid = 2, options = None\<rparr>"

definition mixed_draft :: "string offlineReply" where
  "mixed_draft = plain_draft\<lparr>options := Some \<lparr>private = Some True,
     attachmentsid = Some \<lparr>online = Some [''remote0'', ''remote1''], offline = Some 1\<rparr>\<rparr>\<rparr>"

text \<open>A post under edit, with two files.\<close>

definition edited_post :: "string post_data" where
  "edited_post = \<lparr>post_data.subject = Some ''topic'', post_data.message = Some ''text'',
     post_data.isprivatereply = Some False, files = [''a'', ''b'']\<rparr>"

section \<open>Theorems\<close>

subsection \<open>The in-memory collaborators\<close>

lemma memory_helper_providers:
  "translate memory_helper = memory_translate"
  "fileProvider memory_helper = \<lparr>removeDir = memory_removeDir\<rparr>"
  "sitesProvider memory_helper = \<lparr>getCurrentSiteId = ''site''\<rparr>"
  "uploaderProvider memory_helper = memory_uploader"
  "timeUtils memory_helper = memory_timeUtils"
  "userProvider memory_helper = memory_users"
  "forumProvider memory_helper = \<lparr>COMPONENT = ''mmaModForum'', getDiscussions = memory_getDiscussions\<rparr>"
  "forumOffline memory_helper = memory_forumOffline"
  by (simp_all add: memory_helper_def)

lemmas memory_defs = memory_helper_providers memory_translate_def memory_uploader_def
  memory_timeUtils_def memory_users_def memory_forumOffline_def

subsection \<open>Availability message\<close>

text \<open>
  Claim C8. For every forum and every time, \<open>getAvailabilityMessage\<close> follows a strict
  precedence: the cut-off message when \<open>cutoffdate > 0\<close> and \<open>cutoffdate < now\<close>; else the
  due-reached message with the formatted due date when \<open>duedate > 0\<close> and \<open>duedate < now\<close>;
  else the has-due-date message with the formatted due date when \<open>duedate > 0\<close>; else
  \<^verbatim>\<open>null\<close>. The time \<open>now\<close> is the clock reading divided by 1000, taken afresh by each of
  the two checks: \<open>now1\<close> by the cut-off check and \<open>now2\<close> by the due-date check, which are
  the same \<open>now\<close> on a clock that stands still.
\<close>

theorem getAvailabilityMessage_precedence:
  "fst (getAvailabilityMessage this forum clk) =
     (let now1 = real_of_int (clk 0) / 1000; now2 = real_of_int (clk 1) / 1000 in
      if cutoffdate forum > 0 \<and> real_of_int (cutoffdate forum) < now1 then
        Some (instant (translate this) ''addon.mod_forum.cutoffdatereached'' None)
      else if duedate forum > 0 \<and> real_of_int (duedate forum) < now2 then
        Some (instant (translate this) ''addon.mod_forum.thisforumisdue''
                (Some (userDate (timeUtils this) (duedate forum * 1000))))
      else if duedate forum > 0 then
        Some (instant (translate this) ''addon.mod_forum.thisforumhasduedate''
                (Some (userDate (timeUtils this) (duedate forum * 1000))))
      else None)"
  by (simp add: getAvailabilityMessage_def isCutoffDateReached_def isDueDateReached_def
      Date_now_def Let_def)

theorem getAvailabilityMessage_precedence_witness:
  "fst (getAvailabilityMessage memory_helper \<lparr>cutoffdate = 100, duedate = 200\<rparr> (\<lambda>n. 150000))
     = Some ''addon.mod_forum.cutoffdatereached''
   \<and> fst (getAvailabilityMessage memory_helper \<lparr>cutoffdate = 0, duedate = 100\<rparr> (\<lambda>n. 150000))
     = Some ''addon.mod_forum.thisforumisdue another day''
   \<and> fst (getAvailabilityMessage memory_helper \<lparr>cutoffdate = 0, duedate = 200\<rparr> (\<lambda>n. 150000))
     = Some ''addon.mod_forum.thisforumhasduedate 200''
   \<and> fst (getAvailabilityMessage memory_helper \<lparr>cutoffdate = 0, duedate = 0\<rparr> (\<lambda>n. 150000))
     = None"
  using getAvailabilityMessage_precedence [of memory_helper "\<lparr>cutoffdate = 100, duedate = 200\<rparr>" "\<lambda>n. 150000"]
    getAvailabilityMessage_precedence [of memory_helper "\<lparr>cutoffdate = 0, duedate = 100\<rparr>" "\<lambda>n. 150000"]
    getAvailabilityMessage_precedence [of memory_helper "\<lparr>cutoffdate = 0, duedate = 200\<rparr>" "\<lambda>n. 150000"]
    getAvailabilityMessage_precedence [of memory_helper "\<lparr>cutoffdate = 0, duedate = 0\<rparr>" "\<lambda>n. 150000"]
  by (simp add: memory_defs)

subsection \<open>Change detection\<close>

text \<open>
  Claim C7. \<open>hasPostDataChanged post original\<close> is false whenever \<open>original\<close> is absent or
  its subject is unset or null; otherwise it is true exactly when the subject, the message
  or the private-reply flag differ or, these three being equal, when the collaborator's
  comparison finds the file lists different.
\<close>

theorem hasPostDataChanged_cases:
  "hasPostDataChanged this post original =
     (case original of
        None \<Rightarrow> False
      | Some orig \<Rightarrow>
          post_data.subject orig \<noteq> None \<and>
          (post_data.subject post \<noteq> post_data.subject orig
           \<or> post_data.message post \<noteq> post_data.message orig
           \<or> post_data.isprivatereply post \<noteq> post_data.isprivatereply orig
           \<or> areFileListDifferent (uploaderProvider this) (files post) (files orig)))"
  by (auto simp add: hasPostDataChanged_def split: option.splits)

theorem hasPostDataChanged_cases_witness:
  "\<not> hasPostDataChanged memory_helper edited_post None
   \<and> \<not> hasPostDataChanged memory_helper edited_post
         (Some (edited_post\<lparr>post_data.subject := None, post_data.message := Some ''other''\<rparr>))
   \<and> hasPostDataChanged memory_helper edited_post (Some (edited_post\<lparr>post_data.subject := Some ''old''\<rparr>))
   \<and> hasPostDataChanged memory_helper edited_post (Some (edited_post\<lparr>post_data.message := None\<rparr>))
   \<and> hasPostDataChanged memory_helper edited_post (Some (edited_post\<lparr>post_data.isprivatereply := None\<rparr>))
   \<and> hasPostDataChanged memory_helper edited_post (Some (edited_post\<lparr>files := [''a'']\<rparr>))
   \<and> \<not> hasPostDataChanged memory_helper edited_post (Some (edited_post\<lparr>files := [''b'', ''a'']\<rparr>))"
  using hasPostDataChanged_cases [of memory_helper edited_post None]
    hasPostDataChanged_cases [of memory_helper edited_post
      "Some (edited_post\<lparr>post_data.subject := None, post_data.message := Some ''other''\<rparr>)"]
    hasPostDataChanged_cases [of memory_helper edited_post
      "Some (edited_post\<lparr>post_data.subject := Some ''old''\<rparr>)"]
    hasPostDataChanged_cases [of memory_helper edited_post
      "Some (edited_post\<lparr>post_data.message := None\<rparr>)"]
    hasPostDataChanged_cases [of memory_helper edited_post
      "Some (edited_post\<lparr>post_data.isprivatereply := None\<rparr>)"]
    hasPostDataChanged_cases [of memory_helper edited_post "Some (edited_post\<lparr>files := [''a'']\<rparr>)"]
    hasPostDataChanged_cases [of memory_helper edited_post "Some (edited_post\<lparr>files := [''b'', ''a'']\<rparr>)"]
  by (simp add: memory_defs edited_post_def insert_commute)

subsection \<open>Upload or store\<close>

text \<open>
  Claim C9. \<open>uploadOrStoreNewDiscussionFiles\<close> and \<open>uploadOrStoreReplyFiles\<close> branch on the
  offline flag only. Offline, they store the files under the folder of the new discussion,
  respectively of the reply, and return the result of that (a rejected folder derivation,
  or what \<open>storeFilesToUpload\<close> gives for the folder). Online, they return unchanged what
  \<open>uploadOrReuploadFiles\<close> gives for the files, the forum's component and the forum id.
\<close>

theorem uploadOrStore_routing:
  "(off \<longrightarrow>
      uploadOrStoreNewDiscussionFiles this forumId tc fls off siteId
        = storeNewDiscussionFiles this forumId tc fls siteId
      \<and> uploadOrStoreReplyFiles this forumId postId fls off siteId userId
        = storeReplyFiles this forumId postId fls siteId userId)
   \<and> (\<not> off \<longrightarrow>
      uploadOrStoreNewDiscussionFiles this forumId tc fls off siteId
        = uploadOrReuploadFiles (uploaderProvider this) fls (COMPONENT (forumProvider this)) forumId siteId
      \<and> uploadOrStoreReplyFiles this forumId postId fls off siteId userId
        = uploadOrReuploadFiles (uploaderProvider this) fls (COMPONENT (forumProvider this)) forumId siteId)
   \<and> storeNewDiscussionFiles this forumId tc fls siteId
        = (case getNewDiscussionFolder (forumOffline this) forumId tc siteId of
             Inl e \<Rightarrow> Inl e
           | Inr folderPath \<Rightarrow> storeFilesToUpload (uploaderProvider this) folderPath fls)
   \<and> storeReplyFiles this forumId postId fls siteId userId
        = (case getReplyFolder (forumOffline this) forumId postId siteId userId of
             Inl e \<Rightarrow> Inl e
           | Inr folderPath \<Rightarrow> storeFilesToUpload (uploaderProvider this) folderPath fls)"
  by (simp add: uploadOrStoreNewDiscussionFiles_def uploadOrStoreReplyFiles_def
      storeNewDiscussionFiles_def storeReplyFiles_def then_promise_def)

theorem uploadOrStore_routing_witness:
  "uploadOrStoreNewDiscussionFiles memory_helper 3 1000 [''a'', ''b''] True None = Inr 2
   \<and> uploadOrStoreReplyFiles memory_helper 3 40 [''a'', ''b''] True None (Some 7) = Inr 2
   \<and> uploadOrStoreNewDiscussionFiles memory_helper 3 1000 [''a'', ''b''] False None = Inr 99
   \<and> uploadOrStoreReplyFiles memory_helper 3 40 [''a'', ''b''] False None (Some 7) = Inr 99"
  using uploadOrStore_routing [of True memory_helper 3 1000 "[''a'', ''b'']" None 40 "Some 7"]
    uploadOrStore_routing [of False memory_helper 3 1000 "[''a'', ''b'']" None 40 "Some 7"]
  by (simp add: memory_defs)

subsection \<open>Deleting stored files\<close>

text \<open>
  Claim C1 says that a failure of \<open>removeDir\<close> other than ``folder does not exist''
  propagates to the caller of the delete operation. It does not: on a file store where the
  removal of an existing folder fails with an input/output error, both delete operations
  succeed.
\<close>

theorem deleteStoredFiles_other_failure_counterexample:
  "getNewDiscussionFolder (forumOffline broken_store_helper) 3 1000 None = Inr ''newdisc''
   \<and> fst (removeDir (fileProvider broken_store_helper) ''newdisc'' [''newdisc'']) = Inl (OtherError ''EIO'')
   \<and> fst (deleteNewDiscussionStoredFiles broken_store_helper 3 1000 None [''newdisc'']) = Inr ()
   \<and> getReplyFolder (forumOffline broken_store_helper) 3 40 None (Some 7) = Inr ''reply''
   \<and> fst (removeDir (fileProvider broken_store_helper) ''reply'' [''reply'']) = Inl (OtherError ''EIO'')
   \<and> fst (deleteReplyStoredFiles broken_store_helper 3 40 None (Some 7) [''reply'']) = Inr ()"
  by (simp add: broken_store_helper_def memory_defs deleteNewDiscussionStoredFiles_def
      deleteReplyStoredFiles_def catch_ignore_def)

text \<open>
  Claim C1, amended. For every folder key whose folder path can be derived, the delete
  operation succeeds whatever \<open>removeDir\<close> does: a ``folder does not exist'' failure and
  every other failure of \<open>removeDir\<close> are ignored alike, the file store is left as
  \<open>removeDir\<close> leaves it, and deleting the same key a second time succeeds too. Only a
  failure to derive the folder path (\<open>getNewDiscussionFolder\<close>, \<open>getReplyFolder\<close>)
  propagates, unchanged and with the file store untouched.
\<close>

theorem deleteStoredFiles_ignores_every_removeDir_failure:
  "(getNewDiscussionFolder (forumOffline this) forumId tc siteId = Inr folderPath \<longrightarrow>
      deleteNewDiscussionStoredFiles this forumId tc siteId fs
        = (Inr (), snd (removeDir (fileProvider this) folderPath fs))
      \<and> fst (deleteNewDiscussionStoredFiles this forumId tc siteId
               (snd (deleteNewDiscussionStoredFiles this forumId tc siteId fs))) = Inr ())
   \<and> (getNewDiscussionFolder (forumOffline this) forumId tc siteId = Inl e \<longrightarrow>
      deleteNewDiscussionStoredFiles this forumId tc siteId fs = (Inl e, fs))
   \<and> (getReplyFolder (forumOffline this) forumId postId siteId userId = Inr folderPath' \<longrightarrow>
      deleteReplyStoredFiles this forumId postId siteId userId fs
        = (Inr (), snd (removeDir (fileProvider this) folderPath' fs))
      \<and> fst (deleteReplyStoredFiles this forumId postId siteId userId
               (snd (deleteReplyStoredFiles this forumId postId siteId userId fs))) = Inr ())
   \<and> (getReplyFolder (forumOffline this) forumId postId siteId userId = Inl e' \<longrightarrow>
      deleteReplyStoredFiles this forumId postId siteId userId fs = (Inl e', fs))"
  by (simp add: deleteNewDiscussionStoredFiles_def deleteReplyStoredFiles_def catch_ignore_def
      split: prod.splits sum.splits)

theorem deleteStoredFiles_ignores_every_removeDir_failure_witness:
  "getNewDiscussionFolder (forumOffline memory_helper) 3 1000 None = Inr ''newdisc''
   \<and> deleteNewDiscussionStoredFiles memory_helper 3 1000 None [''newdisc'', ''reply''] = (Inr (), [''reply''])
   \<and> fst (removeDir (fileProvider memory_helper) ''newdisc'' [''reply'']) = Inl NotFoundError
   \<and> deleteNewDiscussionStoredFiles memory_helper 3 1000 None [''reply''] = (Inr (), [''reply''])
   \<and> getReplyFolder (forumOffline memory_helper) 3 40 None (Some 7) = Inr ''reply''
   \<and> deleteReplyStoredFiles memory_helper 3 40 None (Some 7) [''newdisc'', ''reply''] = (Inr (), [''newdisc''])
   \<and> fst (removeDir (fileProvider memory_helper) ''reply'' [''newdisc'']) = Inl NotFoundError
   \<and> deleteReplyStoredFiles memory_helper 3 40 None (Some 7) [''newdisc''] = (Inr (), [''newdisc''])
   \<and> getNewDiscussionFolder
        (forumOffline no_folder_helper) 3 1000 None = Inl (OtherError ''no site'')
   \<and> deleteNewDiscussionStoredFiles
        no_folder_helper 3 1000 None [''newdisc'']
        = (Inl (OtherError ''no site''), [''newdisc''])"
  using deleteStoredFiles_ignores_every_removeDir_failure
      [of memory_helper 3 1000 None "''newdisc''" "[''newdisc'', ''reply'']" _ 40 "Some 7" "''reply''"]
    deleteStoredFiles_ignores_every_removeDir_failure
      [of memory_helper 3 1000 None "''newdisc''" "[''reply'']" _ 40 "Some 7" "''reply''"]
    deleteStoredFiles_ignores_every_removeDir_failure
      [of memory_helper 3 1000 None "''newdisc''" "[''newdisc'']" _ 40 "Some 7" "''reply''"]
    deleteStoredFiles_ignores_every_removeDir_failure
      [of no_folder_helper 3 1000 None _ "[''newdisc'']"
          "OtherError ''no site''" 40 "Some 7" _ "OtherError ''no site''"]
  by (simp add: memory_defs no_folder_helper_def memory_removeDir_def)

subsection \<open>The page scan\<close>

lemma findDiscussion_advance:
  "page_advances this forumId discussionId siteId page \<Longrightarrow>
   findDiscussion this forumId discussionId siteId page
     = findDiscussion this forumId discussionId siteId (Suc page)"
  by (subst findDiscussion.simps) (auto simp add: page_advances_def split: sum.splits option.splits)

lemma findDiscussion_skip:
  "\<forall>p<n. page_advances this forumId discussionId siteId (k + p) \<Longrightarrow>
   findDiscussion this forumId discussionId siteId k
     = findDiscussion this forumId discussionId siteId (k + n)"
proof (induction n)
  case 0
  show ?case by simp
next
  case (Suc n)
  then have "findDiscussion this forumId discussionId siteId k
               = findDiscussion this forumId discussionId siteId (k + n)"
    by simp
  also have "\<dots> = findDiscussion this forumId discussionId siteId (Suc (k + n))"
    using Suc.prems by (intro findDiscussion_advance) simp
  finally show ?case by simp
qed

text \<open>
  Claim C2 says that a page without the id looked for sends the scan to the next page
  whenever it says that more can be loaded, and that the scan fails only on a page that has
  no more to load. It does not hold for an empty page: when page 0 is empty and says that
  more can be loaded, the scan stops there and rejects with \<^verbatim>\<open>null\<close>, although page 1 holds
  the discussion looked for (a scan started at page 1 finds it).
\<close>

theorem getDiscussionById_empty_page_counterexample:
  "getDiscussions (forumProvider gap_helper) 3 None 0 False ''site''
     = Inr \<lparr>discussions = Some [], canLoadMore = True\<rparr>
   \<and> getDiscussions (forumProvider gap_helper) 3 None 1 False ''site''
     = Inr \<lparr>discussions = Some [\<lparr>id_discussion = 21, data = ''c''\<rparr>], canLoadMore = False\<rparr>
   \<and> findDiscussion gap_helper 3 21 ''site'' 1 = Some (Inr \<lparr>id_discussion = 21, data = ''c''\<rparr>)
   \<and> getDiscussionById gap_helper 3 21 None = Some (Inl Null)"
proof -
  have provider: "forumProvider gap_helper
      = \<lparr>COMPONENT = ''mmaModForum'', getDiscussions = gap_getDiscussions\<rparr>"
    and site: "getCurrentSiteId (sitesProvider gap_helper) = ''site''"
    by (simp_all add: gap_helper_def memory_defs)
  have page1: "findDiscussion gap_helper 3 21 ''site'' 1 = Some (Inr \<lparr>id_discussion = 21, data = ''c''\<rparr>)"
    by (subst findDiscussion.simps) (simp add: provider gap_getDiscussions_def)
  have page0: "findDiscussion gap_helper 3 21 ''site'' 0 = Some (Inl Null)"
    by (subst findDiscussion.simps) (simp add: provider gap_getDiscussions_def)
  show ?thesis
    using page0 page1 by (simp add: getDiscussionById_def provider site gap_getDiscussions_def)
qed

text \<open>
  Claim C2, amended. \<open>getDiscussionById\<close> scans the pages one after the other from page 0.
  When the pages before page \<open>n\<close> all let the scan go on, the outcome is decided at page
  \<open>n\<close>: a rejected fetch is passed on; a page that holds the id looked for resolves with
  the first discussion of the page that has it; a non-empty page without it that says that
  more can be loaded sends the scan to page \<open>n + 1\<close>; and every other page (without the id
  and with no more to load, or empty or without a list, whether or not more can be loaded)
  rejects with \<^verbatim>\<open>null\<close>, the not-found condition. The site id is the one given or, when
  that is absent or empty, the current site's.
\<close>

theorem getDiscussionById_scan:
  fixes this :: "('fs, 'f, 'r, 'd) AddonModForumHelperProvider"
    and forumId discussionId :: int and siteId :: "string option" and n :: nat
  defines "site \<equiv> (case siteId of
                      None \<Rightarrow> getCurrentSiteId (sitesProvider this)
                    | Some s \<Rightarrow> if s = [] then getCurrentSiteId (sitesProvider this) else s)"
  assumes "\<forall>p<n. page_advances this forumId discussionId site p"
  shows "getDiscussionById this forumId discussionId siteId =
     (case getDiscussions (forumProvider this) forumId None n False site of
        Inl e \<Rightarrow> Some (Inl e)
      | Inr response \<Rightarrow>
          (case discussions response of
             None \<Rightarrow> Some (Inl Null)
           | Some ds \<Rightarrow>
               (case List.find (\<lambda>d. id_discussion d = discussionId) ds of
                  Some d \<Rightarrow> Some (Inr d)
                | None \<Rightarrow>
                    if ds \<noteq> [] \<and> canLoadMore response
                    then findDiscussion this forumId discussionId site (n + 1)
                    else Some (Inl Null))))"
proof -
  have "getDiscussionById this forumId discussionId siteId
          = findDiscussion this forumId discussionId site 0"
    by (simp add: getDiscussionById_def site_def)
  also have "\<dots> = findDiscussion this forumId discussionId site (0 + n)"
    using assms(2) by (intro findDiscussion_skip) simp
  also have "\<dots> = (case getDiscussions (forumProvider this) forumId None n False site of
        Inl e \<Rightarrow> Some (Inl e)
      | Inr response \<Rightarrow>
          (case discussions response of
             None \<Rightarrow> Some (Inl Null)
           | Some ds \<Rightarrow>
               (case List.find (\<lambda>d. id_discussion d = discussionId) ds of
                  Some d \<Rightarrow> Some (Inr d)
                | None \<Rightarrow>
                    if ds \<noteq> [] \<and> canLoadMore response
                    then findDiscussion this forumId discussionId site (n + 1)
                    else Some (Inl Null))))"
    by (subst findDiscussion.simps) (auto split: sum.splits option.splits)
  finally show ?thesis .
qed

theorem getDiscussionById_scan_witness:
  "page_advances memory_helper 3 32 ''site'' 0
   \<and> page_advances memory_helper 3 32 ''site'' 1
   \<and> getDiscussionById memory_helper 3 32 None = Some (Inr \<lparr>id_discussion = 32, data = ''f''\<rparr>)
   \<and> page_advances memory_helper 3 21 ''site'' 0
   \<and> getDiscussionById memory_helper 3 21 (Some []) = Some (Inr \<lparr>id_discussion = 21, data = ''c''\<rparr>)
   \<and> page_advances memory_helper 3 77 ''site'' 0
   \<and> page_advances memory_helper 3 77 ''site'' 1
   \<and> getDiscussionById memory_helper 3 77 (Some ''site'') = Some (Inl Null)
   \<and> getDiscussionById gap_helper 3 21 None = Some (Inl Null)"
proof -
  have adv: "page_advances memory_helper 3 d ''site'' 0 \<and> page_advances memory_helper 3 d ''site'' 1"
    if "d \<notin> {11, 12, 21, 22}" for d
    using that by (simp add: page_advances_def memory_defs memory_getDiscussions_def)
  have adv1: "page_advances memory_helper 3 21 ''site'' 0"
    by (simp add: page_advances_def memory_defs memory_getDiscussions_def)
  have all2: "\<forall>p<2. page_advances memory_helper 3 d ''site'' p" if "d \<notin> {11, 12, 21, 22}" for d
    using adv [OF that] by (auto simp add: less_2_cases_iff)
  have gap: "forumProvider gap_helper
      = \<lparr>COMPONENT = ''mmaModForum'', getDiscussions = gap_getDiscussions\<rparr>"
    "sitesProvider gap_helper = \<lparr>getCurrentSiteId = ''site''\<rparr>"
    by (simp_all add: gap_helper_def memory_defs)
  show ?thesis
    using adv [of 32] adv [of 77] adv1 all2 [of 32] all2 [of 77]
      getDiscussionById_scan [of 2 memory_helper 3 32 None]
      getDiscussionById_scan [of 1 memory_helper 3 21 "Some []"]
      getDiscussionById_scan [of 2 memory_helper 3 77 "Some ''site''"]
      getDiscussionById_scan [of 0 gap_helper 3 21 None]
    by (simp add: memory_defs memory_getDiscussions_def gap gap_getDiscussions_def)
qed

text \<open>A scan settles only if some page stops it; over pages that all let it go on, the
  promise never settles.\<close>

lemma findDiscussion_settled:
  fixes this :: "('fs, 'f, 'r, 'd) AddonModForumHelperProvider"
  assumes "findDiscussion this forumId discussionId siteId page = Some out"
  shows "\<exists>n. \<not> page_advances this forumId discussionId siteId (page + n)"
proof (rule findDiscussion.raw_induct
    [where P = "\<lambda>this forumId discussionId siteId page out.
                  \<exists>n. \<not> page_advances this forumId discussionId siteId (page + n)", OF _ assms])
  fix f :: "('fs, 'f, 'r, 'd) AddonModForumHelperProvider \<Rightarrow> int \<Rightarrow> int \<Rightarrow> string \<Rightarrow> nat
              \<Rightarrow> 'd discussion promise option"
    and this :: "('fs, 'f, 'r, 'd) AddonModForumHelperProvider"
    and forumId discussionId siteId page out
  assume IH: "\<And>this forumId discussionId siteId page out.
                f this forumId discussionId siteId page = Some out \<Longrightarrow>
                \<exists>n. \<not> page_advances this forumId discussionId siteId (page + n)"
    and step: "(case getDiscussions (forumProvider this) forumId None page False siteId of
        Inl e \<Rightarrow> Some (Inl e)
      | Inr response \<Rightarrow>
          (case discussions response of
             None \<Rightarrow> Some (Inl Null)
           | Some ds \<Rightarrow>
               if length ds > 0 then
                 (case List.find (\<lambda>d. id_discussion d = discussionId) ds of
                    Some d \<Rightarrow> Some (Inr d)
                  | None \<Rightarrow>
                      if canLoadMore response
                      then f this forumId discussionId siteId (page + 1)
                      else Some (Inl Null))
               else Some (Inl Null))) = Some out"
  show "\<exists>n. \<not> page_advances this forumId discussionId siteId (page + n)"
  proof (cases "page_advances this forumId discussionId siteId page")
    case False
    then have "\<not> page_advances this forumId discussionId siteId (page + 0)" by simp
    then show ?thesis by blast
  next
    case True
    with step have "f this forumId discussionId siteId (page + 1) = Some out"
      by (auto simp: page_advances_def split: sum.splits option.splits if_splits)
    from IH [OF this] obtain n
      where "\<not> page_advances this forumId discussionId siteId (page + 1 + n)"
      by blast
    then have "\<not> page_advances this forumId discussionId siteId (page + Suc n)" by simp
    then show ?thesis by blast
  qed
qed

lemma getDiscussionById_never_settles:
  assumes "\<forall>p. page_advances this forumId discussionId
                  (case siteId of
                     None \<Rightarrow> getCurrentSiteId (sitesProvider this)
                   | Some s \<Rightarrow> if s = [] then getCurrentSiteId (sitesProvider this) else s) p"
  shows "getDiscussionById this forumId discussionId siteId = None"
proof (cases "getDiscussionById this forumId discussionId siteId")
  case None
  then show ?thesis .
next
  case (Some out)
  then show ?thesis
    using assms findDiscussion_settled [of this forumId discussionId _ 0 out]
    by (auto simp add: getDiscussionById_def Let_def)
qed

subsection \<open>Conversion of an offline reply\<close>

text \<open>
  The outcome of the conversion in closed form. It does not depend on which of the two
  callbacks runs first: they write to different fields of the reply.
\<close>

lemma Promise_all_one: "Promise_all [p] = (case p of Inl e \<Rightarrow> Inl e | Inr v \<Rightarrow> Inr [v])"
  by (cases p) simp_all

lemma Promise_all_two:
  "Promise_all [p, q] =
     (case p of Inl e \<Rightarrow> Inl e | Inr v \<Rightarrow> (case q of Inl e \<Rightarrow> Inl e | Inr w \<Rightarrow> Inr [v, w]))"
  by (cases p; cases q) simp_all

lemma catch_ignore_then_value:
  "catch_ignore (then_value p f) dflt = Inr (case p of Inl e \<Rightarrow> dflt | Inr v \<Rightarrow> f v)"
  by (cases p) (simp_all add: catch_ignore_def then_value_def)

lemma convertOfflineReplyToOnline_outcome:
  "convertOfflineReplyToOnline this profileFirst r siteId =
     (let remote = (case options r of
                      None \<Rightarrow> []
                    | Some opts \<Rightarrow>
                        (case attachmentsid opts of
                           None \<Rightarrow> []
                         | Some att \<Rightarrow> (case online att of None \<Rightarrow> [] | Some fs \<Rightarrow> fs)));
          listing = (if hasLocal r
                     then getReplyStoredFiles this (forumid r) (postid r) siteId (Some (offlineReply.userid r))
                     else Inr []);
          profile = getProfile (userProvider this) (offlineReply.userid r) (courseid r) True
      in case listing of
           Inl e \<Rightarrow> Inl e
         | Inr stored \<Rightarrow>
             Inr \<lparr>attachments = remote @ stored,
                  canreply = False,
                  children = [],
                  created = timecreated r,
                  discussion = discussionid r,
                  id_reply = None,
                  mailed = 0,
                  mailnow = 0,
                  reply.message = offlineReply.message r,
                  messageformat = 1,
                  messagetrust = 0,
                  modified = None,
                  parent = postid r,
                  postread = False,
                  reply.subject = offlineReply.subject r,
                  totalscore = 0,
                  reply.userid = offlineReply.userid r,
                  reply.isprivatereply = (case options r of None \<Rightarrow> None | Some opts \<Rightarrow> private opts),
                  attachment = Some (if remote @ stored = [] then 0 else 1),
                  userfullname = (case profile of Inl e \<Rightarrow> None | Inr user \<Rightarrow> Some (fullname user)),
                  userpictureurl = (case profile of Inl e \<Rightarrow> None | Inr user \<Rightarrow> Some (profileimageurl user))\<rparr>)"
proof (cases "options r")
  case None
  then show ?thesis
    by (cases "getProfile (userProvider this) (offlineReply.userid r) (courseid r) True")
      (simp_all add: convertOfflineReplyToOnline_def hasLocal_def Let_def catch_ignore_then_value
        Promise_all_one)
next
  case opts: (Some opts)
  show ?thesis
  proof (cases "attachmentsid opts")
    case None
    with opts show ?thesis
      by (cases "getProfile (userProvider this) (offlineReply.userid r) (courseid r) True")
        (simp_all add: convertOfflineReplyToOnline_def hasLocal_def Let_def catch_ignore_then_value
          Promise_all_one)
  next
    case att: (Some att)
    show ?thesis
    proof (cases "truthy (offline att)")
      case False
      with opts att show ?thesis
        by (cases "getProfile (userProvider this) (offlineReply.userid r) (courseid r) True")
          (simp_all add: convertOfflineReplyToOnline_def hasLocal_def Let_def catch_ignore_then_value
            Promise_all_one)
    next
      case True
      show ?thesis
      proof (cases "getReplyStoredFiles this (forumid r) (postid r) siteId (Some (offlineReply.userid r))")
        case (Inl e)
        with opts att True show ?thesis
          by (simp add: convertOfflineReplyToOnline_def hasLocal_def Let_def then_value_def)
      next
        case (Inr stored)
        with opts att True show ?thesis
          by (cases "getProfile (userProvider this) (offlineReply.userid r) (courseid r) True")
            (simp_all add: convertOfflineReplyToOnline_def hasLocal_def Let_def
              catch_ignore_def Promise_all_two then_value_def)
      qed
    qed
  qed
qed

text \<open>
  Claim C3. A rejected profile fetch never fails \<open>convertOfflineReplyToOnline\<close>, and all it
  changes in the post is that \<open>userfullname\<close> and \<open>userpictureurl\<close> stay unset. When
  \<open>getProfile\<close> rejects, the conversion is rejected only by the listing of the stored files
  (which a draft with local files asks for), with the listing's own reason; otherwise it
  resolves with the post built from the draft: the fields of the draft, the remote
  attachments followed by the stored ones, the attachment flag of that list, and the two
  profile fields unset. This is the outcome with any other profile provider, but for
  those two fields. In particular the conversion resolves whenever the listing is not asked
  for or resolves.
\<close>

theorem convert_profile_failure_swallowed:
  assumes "getProfile (userProvider this) (offlineReply.userid r) (courseid r) True = Inl e"
  shows "convertOfflineReplyToOnline this profileFirst r siteId =
     (let remote = (case options r of
                      None \<Rightarrow> []
                    | Some opts \<Rightarrow>
                        (case attachmentsid opts of
                           None \<Rightarrow> []
                         | Some att \<Rightarrow> (case online att of None \<Rightarrow> [] | Some fs \<Rightarrow> fs)));
          listing = (if hasLocal r
                     then getReplyStoredFiles this (forumid r) (postid r) siteId (Some (offlineReply.userid r))
                     else Inr [])
      in case listing of
           Inl e' \<Rightarrow> Inl e'
         | Inr stored \<Rightarrow>
             Inr \<lparr>attachments = remote @ stored,
                  canreply = False,
                  children = [],
                  created = timecreated r,
                  discussion = discussionid r,
                  id_reply = None,
                  mailed = 0,
                  mailnow = 0,
                  reply.message = offlineReply.message r,
                  messageformat = 1,
                  messagetrust = 0,
                  modified = None,
                  parent = postid r,
                  postread = False,
                  reply.subject = offlineReply.subject r,
                  totalscore = 0,
                  reply.userid = offlineReply.userid r,
                  reply.isprivatereply = (case options r of None \<Rightarrow> None | Some opts \<Rightarrow> private opts),
                  attachment = Some (if remote @ stored = [] then 0 else 1),
                  userfullname = None,
                  userpictureurl = None\<rparr>)
     \<and> (\<forall>users.
          convertOfflineReplyToOnline this profileFirst r siteId =
            (case convertOfflineReplyToOnline (this\<lparr>userProvider := users\<rparr>) profileFirst r siteId of
               Inl e' \<Rightarrow> Inl e'
             | Inr p \<Rightarrow> Inr (p\<lparr>userfullname := None, userpictureurl := None\<rparr>)))
     \<and> ((hasLocal r \<longrightarrow>
           (\<exists>stored. getReplyStoredFiles this (forumid r) (postid r) siteId
                        (Some (offlineReply.userid r)) = Inr stored)) \<longrightarrow>
          (\<exists>p. convertOfflineReplyToOnline this profileFirst r siteId = Inr p))"
proof (intro conjI allI)
  show eq: "convertOfflineReplyToOnline this profileFirst r siteId =
     (let remote = (case options r of
                      None \<Rightarrow> []
                    | Some opts \<Rightarrow>
                        (case attachmentsid opts of
                           None \<Rightarrow> []
                         | Some att \<Rightarrow> (case online att of None \<Rightarrow> [] | Some fs \<Rightarrow> fs)));
          listing = (if hasLocal r
                     then getReplyStoredFiles this (forumid r) (postid r) siteId (Some (offlineReply.userid r))
                     else Inr [])
      in case listing of
           Inl e' \<Rightarrow> Inl e'
         | Inr stored \<Rightarrow>
             Inr \<lparr>attachments = remote @ stored,
                  canreply = False,
                  children = [],
                  created = timecreated r,
                  discussion = discussionid r,
                  id_reply = None,
                  mailed = 0,
                  mailnow = 0,
                  reply.message = offlineReply.message r,
                  messageformat = 1,
                  messagetrust = 0,
                  modified = None,
                  parent = postid r,
                  postread = False,
                  reply.subject = offlineReply.subject r,
                  totalscore = 0,
                  reply.userid = offlineReply.userid r,
                  reply.isprivatereply = (case options r of None \<Rightarrow> None | Some opts \<Rightarrow> private opts),
                  attachment = Some (if remote @ stored = [] then 0 else 1),
                  userfullname = None,
                  userpictureurl = None\<rparr>)"
    using assms
    by (cases "getReplyStoredFiles this (forumid r) (postid r) siteId (Some (offlineReply.userid r))")
      (simp_all add: convertOfflineReplyToOnline_outcome Let_def)
next
  fix users
  have same_listing: "getReplyStoredFiles (this\<lparr>userProvider := users\<rparr>) (forumid r) (postid r) siteId
        (Some (offlineReply.userid r))
      = getReplyStoredFiles this (forumid r) (postid r) siteId (Some (offlineReply.userid r))"
    by (simp add: getReplyStoredFiles_def)
  show "convertOfflineReplyToOnline this profileFirst r siteId =
            (case convertOfflineReplyToOnline (this\<lparr>userProvider := users\<rparr>) profileFirst r siteId of
               Inl e' \<Rightarrow> Inl e'
             | Inr p \<Rightarrow> Inr (p\<lparr>userfullname := None, userpictureurl := None\<rparr>))"
    using assms
    by (cases "hasLocal r";
        cases "getReplyStoredFiles this (forumid r) (postid r) siteId (Some (offlineReply.userid r))")
      (simp_all add: convertOfflineReplyToOnline_outcome Let_def same_listing)
next
  show "(hasLocal r \<longrightarrow>
           (\<exists>stored. getReplyStoredFiles this (forumid r) (postid r) siteId
                        (Some (offlineReply.userid r)) = Inr stored)) \<longrightarrow>
          (\<exists>p. convertOfflineReplyToOnline this profileFirst r siteId = Inr p)"
    by (cases "getReplyStoredFiles this (forumid r) (postid r) siteId (Some (offlineReply.userid r))")
      (simp_all add: convertOfflineReplyToOnline_outcome Let_def)
qed

theorem convert_profile_failure_swallowed_witness:
  "getProfile (userProvider no_profile_helper) (offlineReply.userid mixed_draft) (courseid mixed_draft) True
     = Inl (OtherError ''no connection'')
   \<and> convertOfflineReplyToOnline no_profile_helper True mixed_draft None
     = Inr \<lparr>attachments = [''remote0'', ''remote1'', ''local0''], canreply = False, children = [],
            created = 1000, discussion = 5, id_reply = None, mailed = 0, mailnow = 0,
            reply.message = ''hello'', messageformat = 1, messagetrust = 0, modified = None,
            parent = 40, postread = False, reply.subject = ''Re: topic'', totalscore = 0,
            reply.userid = 7, reply.isprivatereply = Some True, attachment = Some 1,
            userfullname = None, userpictureurl = None\<rparr>
   \<and> convertOfflineReplyToOnline memory_helper True mixed_draft None
     = Inr \<lparr>attachments = [''remote0'', ''remote1'', ''local0''], canreply = False, children = [],
            created = 1000, discussion = 5, id_reply = None, mailed = 0, mailnow = 0,
            reply.message = ''hello'', messageformat = 1, messagetrust = 0, modified = None,
            parent = 40, postread = False, reply.subject = ''Re: topic'', totalscore = 0,
            reply.userid = 7, reply.isprivatereply = Some True, attachment = Some 1,
            userfullname = Some ''Ada'', userpictureurl = Some ''ada.png''\<rparr>
   \<and> convertOfflineReplyToOnline no_profile_helper False plain_draft None
     = Inr \<lparr>attachments = [], canreply = False, children = [],
            created = 1000, discussion = 5, id_reply = None, mailed = 0, mailnow = 0,
            reply.message = ''hello'', messageformat = 1, messagetrust = 0, modified = None,
            parent = 40, postread = False, reply.subject = ''Re: topic'', totalscore = 0,
            reply.userid = 7, reply.isprivatereply = None, attachment = Some 0,
            userfullname = None, userpictureurl = None\<rparr>"
proof -
  have rejected: "getProfile (userProvider no_profile_helper) uid cid True
      = Inl (OtherError ''no connection'')" for uid cid
    by (simp add: no_profile_helper_def)
  have listing: "getReplyStoredFiles no_profile_helper f p s u = Inr [''local0'']"
    "getReplyStoredFiles memory_helper f p s u = Inr [''local0'']" for f p s u
    by (simp_all add: no_profile_helper_def getReplyStoredFiles_def then_promise_def memory_defs)
  have with_profile: "convertOfflineReplyToOnline memory_helper True mixed_draft None
     = Inr \<lparr>attachments = [''remote0'', ''remote1'', ''local0''], canreply = False, children = [],
            created = 1000, discussion = 5, id_reply = None, mailed = 0, mailnow = 0,
            reply.message = ''hello'', messageformat = 1, messagetrust = 0, modified = None,
            parent = 40, postread = False, reply.subject = ''Re: topic'', totalscore = 0,
            reply.userid = 7, reply.isprivatereply = Some True, attachment = Some 1,
            userfullname = Some ''Ada'', userpictureurl = Some ''ada.png''\<rparr>"
    by (simp add: convertOfflineReplyToOnline_outcome Let_def hasLocal_def truthy_def listing
        memory_defs mixed_draft_def plain_draft_def)
  show ?thesis
    using convert_profile_failure_swallowed
        [of no_profile_helper mixed_draft "OtherError ''no connection''" True None]
      convert_profile_failure_swallowed
        [of no_profile_helper plain_draft "OtherError ''no connection''" False None]
      with_profile
    by (simp add: rejected hasLocal_def truthy_def listing Let_def mixed_draft_def plain_draft_def)
qed

text \<open>
  Claim C4. For a draft whose attachments mark files stored locally, a rejected listing of
  the stored files (\<open>getReplyStoredFiles\<close> for the forum id, the parent post id, the site id
  and the user id of the draft) rejects the whole conversion, with the same reason.
\<close>

theorem convert_listing_failure_propagates:
  assumes "options r = Some opts" and "attachmentsid opts = Some att" and "truthy (offline att)"
    and "getReplyStoredFiles this (forumid r) (postid r) siteId (Some (offlineReply.userid r)) = Inl e"
  shows "convertOfflineReplyToOnline this profileFirst r siteId = Inl e"
  using assms by (simp add: convertOfflineReplyToOnline_outcome hasLocal_def Let_def)

theorem convert_listing_failure_propagates_witness:
  "options mixed_draft
     = Some \<lparr>private = Some True,
             attachmentsid = Some \<lparr>online = Some [''remote0'', ''remote1''], offline = Some 1\<rparr>\<rparr>
   \<and> truthy (Some 1)
   \<and> getReplyStoredFiles no_listing_helper (forumid mixed_draft) (postid mixed_draft) (Some ''site'')
        (Some (offlineReply.userid mixed_draft)) = Inl (OtherError ''unreadable'')
   \<and> convertOfflineReplyToOnline no_listing_helper False mixed_draft (Some ''site'')
        = Inl (OtherError ''unreadable'')
   \<and> getReplyStoredFiles no_folder_helper (forumid mixed_draft) (postid mixed_draft) (Some ''site'')
        (Some (offlineReply.userid mixed_draft)) = Inl (OtherError ''no site'')
   \<and> convertOfflineReplyToOnline no_folder_helper True mixed_draft (Some ''site'')
        = Inl (OtherError ''no site'')"
  using convert_listing_failure_propagates
      [of mixed_draft "\<lparr>private = Some True,
             attachmentsid = Some \<lparr>online = Some [''remote0'', ''remote1''], offline = Some 1\<rparr>\<rparr>"
          "\<lparr>online = Some [''remote0'', ''remote1''], offline = Some 1\<rparr>"
          no_listing_helper "Some ''site''" "OtherError ''unreadable''" False]
    convert_listing_failure_propagates
      [of mixed_draft "\<lparr>private = Some True,
             attachmentsid = Some \<lparr>online = Some [''remote0'', ''remote1''], offline = Some 1\<rparr>\<rparr>"
          "\<lparr>online = Some [''remote0'', ''remote1''], offline = Some 1\<rparr>"
          no_folder_helper "Some ''site''" "OtherError ''no site''" True]
  by (simp add: no_listing_helper_def no_folder_helper_def memory_defs mixed_draft_def plain_draft_def
      truthy_def getReplyStoredFiles_def then_promise_def)

text \<open>
  Claim C5. In the post of every successful conversion the attachment flag is 1 exactly
  when the merged attachment list is non-empty, and 0 exactly when it is empty. The flag is
  computed from that list alone: a draft has no field it could be taken from.
\<close>

theorem convert_attachment_flag:
  assumes "convertOfflineReplyToOnline this profileFirst r siteId = Inr p"
  shows "(attachment p = Some 1 \<longleftrightarrow> attachments p \<noteq> [])
       \<and> (attachment p = Some 0 \<longleftrightarrow> attachments p = [])"
  using assms
  by (auto simp add: convertOfflineReplyToOnline_outcome Let_def split: sum.splits if_splits)

theorem convert_attachment_flag_witness:
  "(\<exists>p. convertOfflineReplyToOnline memory_helper False mixed_draft None = Inr p
        \<and> attachments p = [''remote0'', ''remote1'', ''local0''] \<and> attachment p = Some 1)
   \<and> (\<exists>p. convertOfflineReplyToOnline memory_helper False plain_draft None = Inr p
        \<and> attachments p = [] \<and> attachment p = Some 0)"
proof -
  obtain p where p: "convertOfflineReplyToOnline memory_helper False mixed_draft None = Inr p"
    and ps: "attachments p = [''remote0'', ''remote1'', ''local0'']"
    by (simp add: convertOfflineReplyToOnline_outcome memory_defs mixed_draft_def plain_draft_def
        hasLocal_def truthy_def getReplyStoredFiles_def then_promise_def)
  obtain q where q: "convertOfflineReplyToOnline memory_helper False plain_draft None = Inr q"
    and qs: "attachments q = []"
    by (simp add: convertOfflineReplyToOnline_outcome memory_defs plain_draft_def
        hasLocal_def truthy_def getReplyStoredFiles_def then_promise_def)
  from convert_attachment_flag [OF p] ps have "attachment p = Some 1" by simp
  moreover from convert_attachment_flag [OF q] qs have "attachment q = Some 0" by simp
  ultimately show ?thesis using p ps q qs by simp
qed

text \<open>
  Claim C6. For a draft with remote attachments and with files stored locally, the
  conversion resolves with the attachment list made of all the remote entries followed by
  all the stored ones, each in their own order; two remote entries and one stored file
  give \<open>[remote0, remote1, local0]\<close>.
\<close>

theorem convert_merge_order:
  assumes "options r = Some opts" and "attachmentsid opts = Some att"
    and "online att = Some remote" and "truthy (offline att)"
    and "getReplyStoredFiles this (forumid r) (postid r) siteId (Some (offlineReply.userid r)) = Inr stored"
  shows "\<exists>p. convertOfflineReplyToOnline this profileFirst r siteId = Inr p
           \<and> attachments p = remote @ stored"
  using assms by (simp add: convertOfflineReplyToOnline_outcome hasLocal_def Let_def)

theorem convert_merge_order_witness:
  "options mixed_draft
     = Some \<lparr>private = Some True,
             attachmentsid = Some \<lparr>online = Some [''remote0'', ''remote1''], offline = Some 1\<rparr>\<rparr>
   \<and> truthy (Some 1)
   \<and> getReplyStoredFiles memory_helper (forumid mixed_draft) (postid mixed_draft) None
        (Some (offlineReply.userid mixed_draft)) = Inr [''local0'']
   \<and> (\<exists>p. convertOfflineReplyToOnline memory_helper True mixed_draft None = Inr p
          \<and> attachments p = [''remote0'', ''remote1'', ''local0''])"
  using convert_merge_order
      [of mixed_draft "\<lparr>private = Some True,
             attachmentsid = Some \<lparr>online = Some [''remote0'', ''remote1''], offline = Some 1\<rparr>\<rparr>"
          "\<lparr>online = Some [''remote0'', ''remote1''], offline = Some 1\<rparr>"
          "[''remote0'', ''remote1'']" memory_helper None "[''local0'']" True]
  by (simp add: memory_defs mixed_draft_def plain_draft_def
      truthy_def getReplyStoredFiles_def then_promise_def)

text \<open>
  Claim C10. For a draft without \<open>options\<close> the conversion resolves, whatever the profile
  fetch does: the attachment path is skipped (the file uploader and the folder provider
  have no part in the outcome), the post has an empty attachment list and the attachment
  flag 0, and its \<open>isprivatereply\<close> is left undefined.
\<close>

theorem convert_without_options:
  assumes "options r = None"
  shows "(\<exists>p. convertOfflineReplyToOnline this profileFirst r siteId = Inr p
            \<and> attachments p = [] \<and> attachment p = Some 0 \<and> reply.isprivatereply p = None)
       \<and> convertOfflineReplyToOnline (this\<lparr>uploaderProvider := uploader, forumOffline := folders\<rparr>)
            profileFirst r siteId
         = convertOfflineReplyToOnline this profileFirst r siteId"
  using assms by (simp add: convertOfflineReplyToOnline_outcome hasLocal_def Let_def)

theorem convert_without_options_witness:
  "options plain_draft = None
   \<and> (\<exists>p. convertOfflineReplyToOnline memory_helper False plain_draft None = Inr p
          \<and> attachments p = [] \<and> attachment p = Some 0 \<and> reply.isprivatereply p = None)
   \<and> (\<exists>p. convertOfflineReplyToOnline no_listing_helper False plain_draft None = Inr p
          \<and> attachments p = [] \<and> attachment p = Some 0 \<and> reply.isprivatereply p = None)
   \<and> (\<exists>p. convertOfflineReplyToOnline no_profile_helper True plain_draft None = Inr p
          \<and> attachments p = [] \<and> attachment p = Some 0 \<and> reply.isprivatereply p = None)"
  using convert_without_options [of plain_draft memory_helper False None]
    convert_without_options [of plain_draft no_listing_helper False None]
    convert_without_options [of plain_draft no_profile_helper True None]
  by (simp add: plain_draft_def)

end
